theory Spec2Isabelle
  imports Complex_Main "HOL-Library.Word"
begin

section \<open>JavaScript values\<close>

text \<open>
  The two dialect files (\<^verbatim>\<open>src/dialects/dmdb/data-types.js\<close> for Dameng and the
  KingbaseES data-types file) work on plain JavaScript values. A finite number is
  represented by its rational value (the code only compares numbers with \<open>0\<close>, \<open>1\<close>,
  \<open>Infinity\<close> and \<open>-Infinity\<close> and tests their truthiness, so \<open>-0\<close> and \<open>0\<close> need not be
  told apart); a string is a list of characters; a \<^verbatim>\<open>Buffer\<close> is a list of bytes;
  a \<^verbatim>\<open>Date\<close> object carries its time value; a moment.js object is a handle that only
  the moment library interprets; a plain object is the list of its own properties.
\<close>

datatype jsnum = NaN | PosInf | NegInf | Fin rat

datatype jsval =
    JUndefined
  | JNull
  | JBool bool
  | JNum jsnum
  | JStr string
  | JBuffer "8 word list"
  | JDate jsnum
  | JMoment nat
  | JArr "jsval list"
  | JObj "(string \<times> jsval) list"

abbreviation Infinity :: jsval where
  "Infinity \<equiv> JNum PosInf"

abbreviation NegInfinity :: jsval where
  "NegInfinity \<equiv> JNum NegInf"

text \<open>JavaScript's \<^verbatim>\<open>ToBoolean\<close>: what \<^verbatim>\<open>if (v)\<close> and \<^verbatim>\<open>!v\<close> test.\<close>

fun truthy :: "jsval \<Rightarrow> bool" where
  "truthy JUndefined = False"
| "truthy JNull = False"
| "truthy (JBool b) = b"
| "truthy (JNum NaN) = False"
| "truthy (JNum PosInf) = True"
| "truthy (JNum NegInf) = True"
| "truthy (JNum (Fin r)) = (r \<noteq> 0)"
| "truthy (JStr s) = (s \<noteq> [])"
| "truthy (JBuffer bs) = True"
| "truthy (JDate t) = True"
| "truthy (JMoment h) = True"
| "truthy (JArr vs) = True"
| "truthy (JObj kvs) = True"

text \<open>
  Reading a property \<^verbatim>\<open>o.k\<close> of a value that is neither \<^verbatim>\<open>null\<close> nor
  \<^verbatim>\<open>undefined\<close>: an own property of a plain object, \<^verbatim>\<open>undefined\<close> when it has
  none of that name (the properties the code reads, \<^verbatim>\<open>raw\<close> and \<^verbatim>\<open>operation\<close>,
  are not defined on any built-in prototype).
\<close>

fun get_prop :: "jsval \<Rightarrow> string \<Rightarrow> jsval" where
  "get_prop (JObj kvs) k = (case map_of kvs k of None \<Rightarrow> JUndefined | Some v \<Rightarrow> v)"
| "get_prop v k = JUndefined"



fun is_Date :: "jsval \<Rightarrow> bool" where
  "is_Date (JDate t) = True"
| "is_Date v = False"

text \<open>
  \<^verbatim>\<open>String.prototype.toLowerCase\<close> on the ASCII letters. The code compares the
  lowered string only with \<^verbatim>\<open>'infinity'\<close> and \<^verbatim>\<open>'-infinity'\<close>, and no character
  outside \<open>A..Z\<close> lowers to one of their letters.
\<close>

definition lower_char :: "char \<Rightarrow> char" where
  "lower_char c =
     (case map_of (zip ''ABCDEFGHIJKLMNOPQRSTUVWXYZ'' ''abcdefghijklmnopqrstuvwxyz'') c of
        None \<Rightarrow> c
      | Some l \<Rightarrow> l)"

definition toLowerCase :: "string \<Rightarrow> string" where
  "toLowerCase s = map lower_char s"

definition squote :: string where
  "squote = [CHR 0x27]"

datatype js_error = Error string | TypeError | RangeError

section \<open>Data type instances\<close>

text \<open>
  An instance of a data-type class, with the properties the two files read or write:
  \<^verbatim>\<open>key\<close>, \<^verbatim>\<open>_length\<close>, \<^verbatim>\<open>options.length\<close> (the \<^verbatim>\<open>length\<close> property of the
  object \<^verbatim>\<open>this.options\<close> refers to), \<^verbatim>\<open>_unsigned\<close>, \<^verbatim>\<open>_zerofill\<close>,
  \<^verbatim>\<open>_decimals\<close>, \<^verbatim>\<open>_binary\<close>, \<^verbatim>\<open>type\<close>, \<^verbatim>\<open>srid\<close>, \<^verbatim>\<open>sqlType\<close>,
  \<^verbatim>\<open>values\<close> (the array of an \<^verbatim>\<open>ENUM\<close>) and \<^verbatim>\<open>_subtype\<close> (of a \<^verbatim>\<open>RANGE\<close>).
  The base constructors of the host library (not part of these files)
  fill them from the constructor arguments; a dialect constructor receives the
  instance as its base constructor left it.
\<close>

record data_type =
  dt_key :: string
  dt_length :: jsval
  dt_options_length :: jsval
  dt_unsigned :: jsval
  dt_zerofill :: jsval
  dt_decimals :: jsval
  dt_binary :: jsval
  dt_type :: jsval
  dt_srid :: jsval
  dt_sqlType :: jsval
  dt_values :: "jsval list"
  dt_subtype :: jsval

section \<open>KingbaseES: unsupported numeric options\<close>

text \<open>
  \<^verbatim>\<open>warn\<close> is the host's \<^verbatim>\<open>BaseTypes.ABSTRACT.warn\<close> bound to a documentation link.
  The \<^verbatim>\<open>FLOAT\<close> constructor below is given on the instance alone, for a plain
  \<^verbatim>\<open>this.options\<close>: it returns the texts it passed to \<^verbatim>\<open>warn\<close>, in order, next to
  the instance.
\<close>

definition integer_warning :: "string \<Rightarrow> string" where
  "integer_warning k =
     ''KingbaseES does not support '' @ squote @ k @ squote
     @ '' with LENGTH, UNSIGNED or ZEROFILL. Plain '' @ squote @ k @ squote
     @ '' will be used instead.''"

datatype integer_family = TINYINT | SMALLINT | INTEGER | BIGINT | REAL | DOUBLE

definition float_decimals_warning :: string where
  "float_decimals_warning =
     ''KingbaseES does not support FLOAT with decimals. Plain `FLOAT` will be used instead.''"

definition float_unsigned_warning :: string where
  "float_unsigned_warning =
     ''KingbaseES does not support FLOAT unsigned. `UNSIGNED` was removed.''"

definition float_zerofill_warning :: string where
  "float_zerofill_warning =
     ''KingbaseES does not support FLOAT zerofill. `ZEROFILL` was removed.''"

text \<open>
  The \<^verbatim>\<open>FLOAT\<close> constructor: \<^verbatim>\<open>super(length, decimals)\<close>, then three \<^verbatim>\<open>if\<close>
  statements one after the other. The argument is the instance after \<^verbatim>\<open>super\<close>.
\<close>

definition kb_FLOAT_ctor :: "data_type \<Rightarrow> string list \<times> data_type" where
  "kb_FLOAT_ctor this =
     (let (w1, this1) =
            (if truthy (dt_decimals this)
             then ([float_decimals_warning],
                   this\<lparr>dt_length := JUndefined, dt_options_length := JUndefined,
                        dt_decimals := JUndefined\<rparr>)
             else ([], this));
          (w2, this2) =
            (if truthy (dt_unsigned this1)
             then (w1 @ [float_unsigned_warning], this1\<lparr>dt_unsigned := JUndefined\<rparr>)
             else (w1, this1));
          (w3, this3) =
            (if truthy (dt_zerofill this2)
             then (w2 @ [float_zerofill_warning], this2\<lparr>dt_zerofill := JUndefined\<rparr>)
             else (w2, this2))
      in (w3, this3))"

section \<open>Dameng: GEOMETRY\<close>

text \<open>
  \<^verbatim>\<open>_.isEmpty\<close> of lodash (a library, not part of these files), as its documentation
  gives it: \<^verbatim>\<open>null\<close>, \<^verbatim>\<open>undefined\<close>, booleans, numbers and objects without own
  enumerable string keyed properties are empty; strings, arrays and buffers are empty
  when their length is \<open>0\<close>.
\<close>

fun isEmpty :: "jsval \<Rightarrow> bool" where
  "isEmpty JUndefined = True"
| "isEmpty JNull = True"
| "isEmpty (JBool b) = True"
| "isEmpty (JNum n) = True"
| "isEmpty (JStr s) = (s = [])"
| "isEmpty (JBuffer bs) = (bs = [])"
| "isEmpty (JDate t) = True"
| "isEmpty (JMoment h) = False"
| "isEmpty (JArr vs) = (vs = [])"
| "isEmpty (JObj kvs) = (kvs = [])"

text \<open>\<^verbatim>\<open>Array.prototype.join\<close> on an array of strings.\<close>

fun join :: "string \<Rightarrow> string list \<Rightarrow> string" where
  "join sep [] = []"
| "join sep [x] = x"
| "join sep (x # y # ys) = x @ sep @ join sep (y # ys)"

text \<open>\<^verbatim>\<open>Array.prototype.includes\<close> on an array of strings: only an equal string is found.\<close>

fun array_includes :: "string list \<Rightarrow> jsval \<Rightarrow> bool" where
  "array_includes xs (JStr s) = (s \<in> set xs)"
| "array_includes xs v = False"

definition SUPPORTED_GEOMETRY_TYPES :: "string list" where
  "SUPPORTED_GEOMETRY_TYPES = [''POINT'', ''LINESTRING'', ''POLYGON'']"

definition geometry_error :: js_error where
  "geometry_error = Error (''Supported geometry types are: '' @ join '', '' SUPPORTED_GEOMETRY_TYPES)"

text \<open>
  The constructor body after \<^verbatim>\<open>super(type, srid)\<close>, which has set \<^verbatim>\<open>this.type\<close>
  and \<^verbatim>\<open>this.key\<close>.
\<close>

definition dm_GEOMETRY_ctor :: "data_type \<Rightarrow> js_error + data_type" where
  "dm_GEOMETRY_ctor this =
     (if isEmpty (dt_type this) then Inr (this\<lparr>dt_sqlType := JStr (dt_key this)\<rparr>)
      else if array_includes SUPPORTED_GEOMETRY_TYPES (dt_type this)
      then Inr (this\<lparr>dt_sqlType := dt_type this\<rparr>)
      else Inl geometry_error)"

definition dm_GEOMETRY_toSql :: "data_type \<Rightarrow> jsval" where
  "dm_GEOMETRY_toSql this = dt_sqlType this"

section \<open>Dameng: DATE and TIME\<close>

text \<open>
  \<^verbatim>\<open>new Array(len).fill(x)\<close>: a number must be an integer from \<open>0\<close> to \<open>2^32 - 1\<close>
  and gives that many copies of \<open>x\<close> (a \<^verbatim>\<open>RangeError\<close> otherwise); any other value
  becomes the only element of the array, which \<^verbatim>\<open>fill\<close> then overwrites.
\<close>

fun new_Array_fill :: "jsval \<Rightarrow> string \<Rightarrow> js_error + string list" where
  "new_Array_fill (JNum (Fin r)) x =
     (if of_int \<lfloor>r\<rfloor> = r \<and> 0 \<le> r \<and> r < 2 ^ 32 then Inr (replicate (nat \<lfloor>r\<rfloor>) x)
      else Inl RangeError)"
| "new_Array_fill (JNum n) x = Inl RangeError"
| "new_Array_fill v x = Inr [x]"

text \<open>
  The format string each \<^verbatim>\<open>_stringify\<close> hands to \<^verbatim>\<open>date.format\<close>. In \<^verbatim>\<open>DATE\<close> the
  array is joined by \<^verbatim>\<open>join()\<close>, whose separator defaults to a comma; in \<^verbatim>\<open>TIME\<close>
  by \<^verbatim>\<open>join('')\<close>.
\<close>

definition dm_DATE_format :: "data_type \<Rightarrow> js_error + string" where
  "dm_DATE_format this =
     (if truthy (dt_length this)
      then (case new_Array_fill (dt_length this) ''S'' of
              Inl e \<Rightarrow> Inl e
            | Inr a \<Rightarrow> Inr (''YYYY-MM-DD HH:mm:ss.'' @ join '','' a))
      else Inr ''YYYY-MM-DD HH:mm:ss'')"

definition dm_TIME_format :: "data_type \<Rightarrow> js_error + string" where
  "dm_TIME_format this =
     (if truthy (dt_length this)
      then (case new_Array_fill (dt_length this) ''S'' of
              Inl e \<Rightarrow> Inl e
            | Inr a \<Rightarrow> Inr (''HH:mm:ss.'' @ join [] a))
      else Inr ''HH:mm:ss'')"

section \<open>Host functions of the value-level methods\<close>

text \<open>
  The next sections give some methods as functions of the receiver and the arguments.
  What such a method calls but the files do not define is a parameter:
  \<^verbatim>\<open>super._stringify\<close> and \<^verbatim>\<open>super._sanitize\<close> of the base class, and
  \<^verbatim>\<open>new Date(value)\<close>.

  Members of the Dameng classes carry the prefix \<open>dm_\<close>, members of the KingbaseES
  classes the prefix \<open>kb_\<close>, since both files declare a \<^verbatim>\<open>DATE\<close>, a \<^verbatim>\<open>GEOMETRY\<close>
  and so on.
\<close>

record env =
  base_stringify :: "string \<Rightarrow> data_type \<Rightarrow> jsval \<Rightarrow> jsval \<Rightarrow> jsval"
  base_sanitize :: "string \<Rightarrow> data_type \<Rightarrow> jsval \<Rightarrow> jsval"
  Date_time :: "jsval \<Rightarrow> jsnum"

section \<open>KingbaseES: the values of DATE, DATEONLY and BOOLEAN\<close>

text \<open>The test \<^verbatim>\<open>!options || options && !options.raw\<close>.\<close>

definition not_raw :: "jsval \<Rightarrow> bool" where
  "not_raw options = (\<not> truthy options \<or> (truthy options \<and> \<not> truthy (get_prop options ''raw'')))"

definition kb_DATEONLY_stringify :: "env \<Rightarrow> data_type \<Rightarrow> jsval \<Rightarrow> jsval \<Rightarrow> jsval" where
  "kb_DATEONLY_stringify e this v options =
     (if v = Infinity then JStr ''Infinity''
      else if v = NegInfinity then JStr ''-Infinity''
      else base_stringify e ''DATEONLY'' this v options)"

definition kb_DATEONLY_sanitize :: "env \<Rightarrow> data_type \<Rightarrow> jsval \<Rightarrow> jsval \<Rightarrow> jsval" where
  "kb_DATEONLY_sanitize e this v options =
     (if not_raw options \<and> v \<noteq> Infinity \<and> v \<noteq> NegInfinity
      then (case v of
              JStr s \<Rightarrow>
                (let lower = toLowerCase s
                 in if lower = ''infinity'' then Infinity
                    else if lower = ''-infinity'' then NegInfinity
                    else base_sanitize e ''DATEONLY'' this v)
            | _ \<Rightarrow> base_sanitize e ''DATEONLY'' this v)
      else v)"

definition kb_DATEONLY_parse :: "jsval \<Rightarrow> jsval" where
  "kb_DATEONLY_parse v =
     (if v = JStr ''infinity'' then Infinity
      else if v = JStr ''-infinity'' then NegInfinity
      else v)"

definition kb_DATE_stringify :: "env \<Rightarrow> data_type \<Rightarrow> jsval \<Rightarrow> jsval \<Rightarrow> jsval" where
  "kb_DATE_stringify e this v options =
     (if v = Infinity then JStr ''Infinity''
      else if v = NegInfinity then JStr ''-Infinity''
      else base_stringify e ''DATE'' this v options)"

definition kb_DATE_sanitize :: "env \<Rightarrow> jsval \<Rightarrow> jsval \<Rightarrow> jsval" where
  "kb_DATE_sanitize e v options =
     (if not_raw options \<and> \<not> is_Date v \<and> truthy v \<and> v \<noteq> Infinity \<and> v \<noteq> NegInfinity
      then (case v of
              JStr s \<Rightarrow>
                (let lower = toLowerCase s
                 in if lower = ''infinity'' then Infinity
                    else if lower = ''-infinity'' then NegInfinity
                    else JDate (Date_time e v))
            | _ \<Rightarrow> JDate (Date_time e v))
      else v)"

text \<open>
  The KingbaseES class \<^verbatim>\<open>DATE\<close> declares \<^verbatim>\<open>toSql\<close>, \<^verbatim>\<open>validate\<close>,
  \<^verbatim>\<open>_stringify\<close> and \<^verbatim>\<open>_sanitize\<close>, and no static \<^verbatim>\<open>parse\<close>: \<^verbatim>\<open>DATE.parse\<close>
  is the static member it inherits from \<^verbatim>\<open>BaseTypes.DATE\<close>, if the host declares one,
  and calling it is a \<^verbatim>\<open>TypeError\<close> if not.
\<close>

definition kb_DATE_parse :: "(jsval \<Rightarrow> jsval) option \<Rightarrow> jsval \<Rightarrow> js_error + jsval" where
  "kb_DATE_parse inherited v =
     (case inherited of None \<Rightarrow> Inl TypeError | Some p \<Rightarrow> Inr (p v))"







section \<open>Registration with the host\<close>

text \<open>
  The host's \<^verbatim>\<open>BaseTypes\<close> object (not part of these files): its properties are
  classes, and one class may be reachable under several property names (the host exports
  \<^verbatim>\<open>DOUBLE\<close> also as \<^verbatim>\<open>'DOUBLE PRECISION'\<close>). A class is therefore an identity, not
  a name: \<open>members\<close> gives the class a property name refers to, and the \<^verbatim>\<open>types\<close>
  object and the prototype of a class are keyed by the class. Every class of the host
  carries a \<^verbatim>\<open>types\<close> object. A wire-type entry is an array of names (with
  \<^verbatim>\<open>null\<close> as \<open>None\<close>), \<^verbatim>\<open>false\<close>, or the two tables of \<^verbatim>\<open>RANGE\<close>.
\<close>

type_synonym class_id = nat

datatype wire =
    Names "string option list"
  | Disabled
  | RangeTables "(string \<times> string) list" "(string \<times> string) list"

datatype proto_member = HostMember | Value jsval | DialectFunction string

record base_types =
  members :: "string \<Rightarrow> class_id option"
  types :: "class_id \<times> string \<Rightarrow> wire option"
  prototype :: "class_id \<times> string \<Rightarrow> proto_member"

















section \<open>Methods as programs over a heap\<close>

text \<open>
  What a call can read or write beyond its arguments:
  \<^item> \<open>h_this\<close>, the receiver;
  \<^item> \<open>h_options\<close>, the kind of object \<^verbatim>\<open>this.options\<close> refers to, which decides what
    the assignment \<^verbatim>\<open>this.options.length = undefined\<close> does: it succeeds on a plain
    object, throws a \<^verbatim>\<open>RangeError\<close> on an array (\<^verbatim>\<open>undefined\<close> is no array length)
    and, the files being in strict mode, a \<^verbatim>\<open>TypeError\<close> on an object whose
    \<^verbatim>\<open>length\<close> cannot be written (a frozen object, a string);
  \<^item> \<open>h_hstore\<close>, the variable \<^verbatim>\<open>let hstore;\<close> of the KingbaseES module function's
    closure: \<open>False\<close> while it is \<^verbatim>\<open>undefined\<close>, \<open>True\<close> once it holds the module
    \<^verbatim>\<open>require('./hstore')\<close> returns. It is the only variable of the two closures that
    is assigned after its declaration (\<^verbatim>\<open>warn\<close>, \<^verbatim>\<open>range\<close> and
    \<^verbatim>\<open>SUPPORTED_GEOMETRY_TYPES\<close> are \<^verbatim>\<open>const\<close>);
  \<^item> \<open>h_base\<close>, the host's \<^verbatim>\<open>BaseTypes\<close>;
  \<^item> \<open>h_host\<close>, whatever else the host's functions depend on or change (its
    logger, clock and time-zone data, the objects its callbacks close over). The two
    files have no expression that reaches it.
  A program takes the heap and gives what the call returned or threw with the heap it
  left.
\<close>

datatype options_kind = PlainObject | ArrayObject | ReadOnlyObject

record heap =
  h_this :: data_type
  h_options :: options_kind
  h_hstore :: bool
  h_base :: base_types
  h_host :: jsval

type_synonym 'a prog = "heap \<Rightarrow> (js_error + 'a) \<times> heap"

definition ret :: "'a \<Rightarrow> 'a prog" where
  "ret x = (\<lambda>s. (Inr x, s))"


text \<open>\<open>seq m f\<close>: run \<open>m\<close>; if it threw, so does the whole; else go on with \<open>f\<close>.\<close>

definition seq :: "'a prog \<Rightarrow> ('a \<Rightarrow> 'b prog) \<Rightarrow> 'b prog" where
  "seq m f = (\<lambda>s. case m s of (Inl err, s') \<Rightarrow> (Inl err, s') | (Inr x, s') \<Rightarrow> f x s')"

definition this_get :: "(data_type \<Rightarrow> 'a) \<Rightarrow> 'a prog" where
  "this_get field = (\<lambda>s. (Inr (field (h_this s)), s))"

definition this_set :: "(data_type \<Rightarrow> data_type) \<Rightarrow> unit prog" where
  "this_set upd = (\<lambda>s. (Inr (), s\<lparr>h_this := upd (h_this s)\<rparr>))"




text \<open>The statement \<^verbatim>\<open>this.options.length = undefined\<close>.\<close>

definition options_clear_length :: "unit prog" where
  "options_clear_length =
     (\<lambda>s. case h_options s of
             PlainObject \<Rightarrow> (Inr (), s\<lparr>h_this := (h_this s)\<lparr>dt_options_length := JUndefined\<rparr>\<rparr>)
           | ArrayObject \<Rightarrow> (Inl RangeError, s)
           | ReadOnlyObject \<Rightarrow> (Inl TypeError, s))"

text \<open>
  Everything the files call but do not define is the host: \<open>ext name args\<close> is the
  call of the function the source expression \<open>name\<close> denotes (a method of a base
  class, of moment, wkx or the driver, a callback in \<^verbatim>\<open>options\<close>, a built-in), or the
  read of a property that may hold a function. Such a call is a program of its own: it
  sees the heap, may change it and may throw. \<open>to_string\<close> is the conversion of a value
  that is not a string when it is spliced into a template literal or joined.
\<close>

record host =
  ext :: "string \<Rightarrow> jsval list \<Rightarrow> jsval prog"
  to_string :: "jsval \<Rightarrow> string"





definition super_ctor :: "host \<Rightarrow> string \<Rightarrow> jsval list \<Rightarrow> jsval prog" where
  "super_ctor e cls args = ext e (''BaseTypes.'' @ cls @ '' (constructor)'') args"

text \<open>
  \<^verbatim>\<open>warn\<close>: \<^verbatim>\<open>BaseTypes.ABSTRACT.warn.bind(undefined, link)\<close>, so a call of the
  host's function with the link and the text.
\<close>

definition warn :: "host \<Rightarrow> string \<Rightarrow> jsval prog" where
  "warn e text =
     ext e ''BaseTypes.ABSTRACT.warn''
       [JStr ''http://www.postgresql.org/docs/9.4/static/datatype.html'', JStr text]"





subsection \<open>Dameng\<close>




















subsection \<open>KingbaseES\<close>

text \<open>
  \<^verbatim>\<open>removeUnsupportedIntegerOptions(dataType)\<close>, called with \<^verbatim>\<open>this\<close> by the
  constructors of \<^verbatim>\<open>TINYINT\<close>, \<^verbatim>\<open>SMALLINT\<close>, \<^verbatim>\<open>INTEGER\<close>, \<^verbatim>\<open>BIGINT\<close>,
  \<^verbatim>\<open>REAL\<close> and \<^verbatim>\<open>DOUBLE\<close> after \<^verbatim>\<open>super(length)\<close>.
\<close>

definition unsupported_options :: "data_type \<Rightarrow> bool" where
  "unsupported_options dataType =
     (truthy (dt_length dataType) \<or> truthy (dt_options_length dataType)
      \<or> truthy (dt_unsigned dataType) \<or> truthy (dt_zerofill dataType))"

definition removeUnsupportedIntegerOptions :: "host \<Rightarrow> unit prog" where
  "removeUnsupportedIntegerOptions e =
     seq (this_get unsupported_options) (\<lambda>unsupported.
       if unsupported
       then seq (this_get dt_key) (\<lambda>key.
            seq (warn e (integer_warning key)) (\<lambda>_.
            seq (this_set (\<lambda>dataType. dataType\<lparr>dt_length := JUndefined\<rparr>)) (\<lambda>_.
            seq options_clear_length (\<lambda>_.
            seq (this_set (\<lambda>dataType. dataType\<lparr>dt_unsigned := JUndefined\<rparr>)) (\<lambda>_.
            this_set (\<lambda>dataType. dataType\<lparr>dt_zerofill := JUndefined\<rparr>))))))
       else ret ())"

fun family_name :: "integer_family \<Rightarrow> string" where
  "family_name TINYINT = ''TINYINT''"
| "family_name SMALLINT = ''SMALLINT''"
| "family_name INTEGER = ''INTEGER''"
| "family_name BIGINT = ''BIGINT''"
| "family_name REAL = ''REAL''"
| "family_name DOUBLE = ''DOUBLE''"

definition integer_ctor :: "host \<Rightarrow> integer_family \<Rightarrow> jsval \<Rightarrow> unit prog" where
  "integer_ctor e cls length0 =
     seq (super_ctor e (family_name cls) [length0]) (\<lambda>_. removeUnsupportedIntegerOptions e)"

















































section \<open>The operations of the two files\<close>


text \<open>A missing argument reads as \<^verbatim>\<open>undefined\<close>.\<close>

definition arg :: "jsval list \<Rightarrow> nat \<Rightarrow> jsval" where
  "arg args n = (if n < length args then args ! n else JUndefined)"

















section \<open>Concrete instances\<close>

text \<open>
  An instance whose base constructor was given no options (every property
  \<^verbatim>\<open>undefined\<close>), and simple host functions to evaluate the operations with.
\<close>

definition new_instance :: "string \<Rightarrow> data_type" where
  "new_instance k =
     \<lparr>dt_key = k, dt_length = JUndefined, dt_options_length = JUndefined,
      dt_unsigned = JUndefined, dt_zerofill = JUndefined, dt_decimals = JUndefined,
      dt_binary = JUndefined, dt_type = JUndefined, dt_srid = JUndefined,
      dt_sqlType = JUndefined, dt_values = [], dt_subtype = JUndefined\<rparr>"

definition example_env :: env where
  "example_env =
     \<lparr>base_stringify = (\<lambda>name this v options. v),
      base_sanitize = (\<lambda>name this v. v),
      Date_time = (\<lambda>v. NaN)\<rparr>"

text \<open>
  A host as the library sets it up: its classes, with \<^verbatim>\<open>DOUBLE\<close> exported also as
  \<^verbatim>\<open>'DOUBLE PRECISION'\<close> and \<^verbatim>\<open>DECIMAL\<close> also as \<^verbatim>\<open>NUMERIC\<close>, and no dialect
  registered yet; a heap around a receiver with a plain \<^verbatim>\<open>options\<close> object, before
  any \<^verbatim>\<open>HSTORE\<close> was used; and host functions that return their first argument.
\<close>

definition host_classes :: "(string \<times> class_id) list" where
  "host_classes =
     [(''ABSTRACT'', 0), (''STRING'', 1), (''CHAR'', 2), (''TEXT'', 3), (''CITEXT'', 4),
      (''TINYINT'', 5), (''SMALLINT'', 6), (''MEDIUMINT'', 7), (''INTEGER'', 8),
      (''BIGINT'', 9), (''FLOAT'', 10), (''REAL'', 11), (''DOUBLE'', 12),
      (''DOUBLE PRECISION'', 12), (''DECIMAL'', 13), (''NUMERIC'', 13), (''BOOLEAN'', 14),
      (''TIME'', 15), (''DATE'', 16), (''DATEONLY'', 17), (''HSTORE'', 18), (''JSON'', 19),
      (''JSONB'', 20), (''BLOB'', 21), (''RANGE'', 22), (''UUID'', 23), (''ENUM'', 24),
      (''ARRAY'', 25), (''GEOMETRY'', 26), (''GEOGRAPHY'', 27), (''CIDR'', 28),
      (''INET'', 29), (''MACADDR'', 30), (''TSVECTOR'', 31)]"

definition untouched_base :: base_types where
  "untouched_base =
     \<lparr>members = map_of host_classes, types = (\<lambda>k. None), prototype = (\<lambda>k. HostMember)\<rparr>"

definition heap_around :: "data_type \<Rightarrow> heap" where
  "heap_around this =
     \<lparr>h_this = this, h_options = PlainObject, h_hstore = False,
      h_base = untouched_base, h_host = JUndefined\<rparr>"

definition example_host :: host where
  "example_host =
     \<lparr>ext = (\<lambda>name args. ret (arg args 0)), to_string = (\<lambda>v. ''?'')\<rparr>"

section \<open>What the operations leave unchanged\<close>






















































section \<open>Registration\<close>




























section \<open>KingbaseES: options left after construction\<close>

text \<open>
  \<^verbatim>\<open>removeUnsupportedIntegerOptions\<close> case by case: nothing to remove; \<^verbatim>\<open>warn\<close> throws;
  \<^verbatim>\<open>warn\<close> returns and the four assignments follow.
\<close>

lemma removeUnsupportedIntegerOptions_supported:
  "\<not> unsupported_options (h_this s) \<Longrightarrow> removeUnsupportedIntegerOptions e s = (Inr (), s)"
  by (simp add: removeUnsupportedIntegerOptions_def seq_def this_get_def ret_def)

lemma removeUnsupportedIntegerOptions_throws:
  "unsupported_options (h_this s) \<Longrightarrow> warn e (integer_warning (dt_key (h_this s))) s = (Inl err, s')
     \<Longrightarrow> removeUnsupportedIntegerOptions e s = (Inl err, s')"
  by (simp add: removeUnsupportedIntegerOptions_def seq_def this_get_def ret_def)

lemma removeUnsupportedIntegerOptions_warned:
  "unsupported_options (h_this s) \<Longrightarrow> warn e (integer_warning (dt_key (h_this s))) s = (Inr y, s')
     \<Longrightarrow> removeUnsupportedIntegerOptions e s =
           (case h_options s' of
              PlainObject \<Rightarrow>
                (Inr (),
                 s'\<lparr>h_this := (h_this s')\<lparr>dt_length := JUndefined,
                    dt_options_length := JUndefined, dt_unsigned := JUndefined,
                    dt_zerofill := JUndefined\<rparr>\<rparr>)
            | ArrayObject \<Rightarrow>
                (Inl RangeError, s'\<lparr>h_this := (h_this s')\<lparr>dt_length := JUndefined\<rparr>\<rparr>)
            | ReadOnlyObject \<Rightarrow>
                (Inl TypeError, s'\<lparr>h_this := (h_this s')\<lparr>dt_length := JUndefined\<rparr>\<rparr>))"
  by (simp add: removeUnsupportedIntegerOptions_def seq_def this_get_def this_set_def ret_def
      options_clear_length_def split: options_kind.splits)

lemma removeUnsupportedIntegerOptions_falsy:
  assumes "removeUnsupportedIntegerOptions e s = (Inr u, s')"
  shows "\<not> truthy (dt_length (h_this s')) \<and> \<not> truthy (dt_options_length (h_this s'))
         \<and> \<not> truthy (dt_unsigned (h_this s')) \<and> \<not> truthy (dt_zerofill (h_this s'))"
proof (cases "unsupported_options (h_this s)")
  case False
  with assms removeUnsupportedIntegerOptions_supported [OF False, of e]
  show ?thesis by (simp add: unsupported_options_def)
next
  case True
  obtain r t where w: "warn e (integer_warning (dt_key (h_this s))) s = (r, t)"
    by (cases "warn e (integer_warning (dt_key (h_this s))) s")
  show ?thesis
  proof (cases r)
    case (Inl err)
    with assms removeUnsupportedIntegerOptions_throws [OF True, of e err t] w
    show ?thesis by simp
  next
    case (Inr y)
    with assms removeUnsupportedIntegerOptions_warned [OF True, of e y t] w
    show ?thesis by (cases "h_options t") auto
  qed
qed

text \<open>
  Claim C4, as stated, fails twice. The options are cleared only when one of them is
  truthy: an \<^verbatim>\<open>INTEGER\<close> built with \<^verbatim>\<open>zerofill: false\<close> keeps \<^verbatim>\<open>_zerofill === false\<close>, which
  is not \<^verbatim>\<open>undefined\<close>. And construction can throw because of these options: for
  \<^verbatim>\<open>new INTEGER([1, 2])\<close> the options are an array of length 2, and
  \<^verbatim>\<open>this.options.length = undefined\<close> is a \<^verbatim>\<open>RangeError\<close>. (The example host's base
  constructor leaves the heap alone, so the receiver in the heap is the instance as
  the base constructor leaves it.)
\<close>

theorem C4_counterexample:
  "dt_zerofill (h_this (snd (integer_ctor example_host INTEGER
       (JObj [(''zerofill'', JBool False)])
       (heap_around ((new_instance ''INTEGER'')\<lparr>dt_zerofill := JBool False\<rparr>)))))
     = JBool False
   \<and> fst (integer_ctor example_host INTEGER (JArr [JNum (Fin 1), JNum (Fin 2)])
       ((heap_around ((new_instance ''INTEGER'')\<lparr>dt_length := JNum (Fin 2),
            dt_options_length := JNum (Fin 2)\<rparr>))\<lparr>h_options := ArrayObject\<rparr>))
     = Inl RangeError"
  by (simp add: integer_ctor_def removeUnsupportedIntegerOptions_def super_ctor_def warn_def
      example_host_def unsupported_options_def options_clear_length_def seq_def ret_def
      this_get_def this_set_def heap_around_def new_instance_def)

text \<open>
  Claim C4, amended. For every KingbaseES integer-family class (\<^verbatim>\<open>TINYINT\<close>,
  \<^verbatim>\<open>SMALLINT\<close>, \<^verbatim>\<open>INTEGER\<close>, \<^verbatim>\<open>BIGINT\<close>, \<^verbatim>\<open>REAL\<close>, \<^verbatim>\<open>DOUBLE\<close>), every argument, every
  heap and any host functions: if the base constructor throws, so does the constructor;
  if it returns and none of \<^verbatim>\<open>_length\<close>, \<^verbatim>\<open>options.length\<close>, \<^verbatim>\<open>_unsigned\<close> and
  \<^verbatim>\<open>_zerofill\<close> is truthy, the constructor returns and leaves the instance as the base
  constructor left it; if one is truthy, the constructor calls \<^verbatim>\<open>warn\<close>, throws what it
  throws and, when it returns, sets \<^verbatim>\<open>_length\<close> to \<^verbatim>\<open>undefined\<close> and then, with a plain
  \<^verbatim>\<open>options\<close> object, the other three too and returns, while it throws a
  \<^verbatim>\<open>RangeError\<close> when \<^verbatim>\<open>options\<close> is an array and a \<^verbatim>\<open>TypeError\<close> when the \<^verbatim>\<open>length\<close> of
  \<^verbatim>\<open>options\<close> cannot be written. Whenever the constructor returns, all four are falsy.
\<close>

theorem C4_integer_options:
  "(case super_ctor e (family_name cls) [length0] s of
      (Inl err, s1) \<Rightarrow> integer_ctor e cls length0 s = (Inl err, s1)
    | (Inr x, s1) \<Rightarrow>
        (\<not> unsupported_options (h_this s1) \<longrightarrow> integer_ctor e cls length0 s = (Inr (), s1))
        \<and> (unsupported_options (h_this s1) \<longrightarrow>
            (case warn e (integer_warning (dt_key (h_this s1))) s1 of
               (Inl err, s2) \<Rightarrow> integer_ctor e cls length0 s = (Inl err, s2)
             | (Inr y, s2) \<Rightarrow>
                 integer_ctor e cls length0 s =
                   (case h_options s2 of
                      PlainObject \<Rightarrow>
                        (Inr (),
                         s2\<lparr>h_this := (h_this s2)\<lparr>dt_length := JUndefined,
                            dt_options_length := JUndefined, dt_unsigned := JUndefined,
                            dt_zerofill := JUndefined\<rparr>\<rparr>)
                    | ArrayObject \<Rightarrow>
                        (Inl RangeError, s2\<lparr>h_this := (h_this s2)\<lparr>dt_length := JUndefined\<rparr>\<rparr>)
                    | ReadOnlyObject \<Rightarrow>
                        (Inl TypeError, s2\<lparr>h_this := (h_this s2)\<lparr>dt_length := JUndefined\<rparr>\<rparr>)))))
   \<and> (fst (integer_ctor e cls length0 s) = Inr ()
      \<longrightarrow> \<not> truthy (dt_length (h_this (snd (integer_ctor e cls length0 s))))
          \<and> \<not> truthy (dt_options_length (h_this (snd (integer_ctor e cls length0 s))))
          \<and> \<not> truthy (dt_unsigned (h_this (snd (integer_ctor e cls length0 s))))
          \<and> \<not> truthy (dt_zerofill (h_this (snd (integer_ctor e cls length0 s)))))"
proof -
  obtain r s1 where sup: "super_ctor e (family_name cls) [length0] s = (r, s1)"
    by (cases "super_ctor e (family_name cls) [length0] s")
  have first: "(case super_ctor e (family_name cls) [length0] s of
      (Inl err, s1) \<Rightarrow> integer_ctor e cls length0 s = (Inl err, s1)
    | (Inr x, s1) \<Rightarrow>
        (\<not> unsupported_options (h_this s1) \<longrightarrow> integer_ctor e cls length0 s = (Inr (), s1))
        \<and> (unsupported_options (h_this s1) \<longrightarrow>
            (case warn e (integer_warning (dt_key (h_this s1))) s1 of
               (Inl err, s2) \<Rightarrow> integer_ctor e cls length0 s = (Inl err, s2)
             | (Inr y, s2) \<Rightarrow>
                 integer_ctor e cls length0 s =
                   (case h_options s2 of
                      PlainObject \<Rightarrow>
                        (Inr (),
                         s2\<lparr>h_this := (h_this s2)\<lparr>dt_length := JUndefined,
                            dt_options_length := JUndefined, dt_unsigned := JUndefined,
                            dt_zerofill := JUndefined\<rparr>\<rparr>)
                    | ArrayObject \<Rightarrow>
                        (Inl RangeError, s2\<lparr>h_this := (h_this s2)\<lparr>dt_length := JUndefined\<rparr>\<rparr>)
                    | ReadOnlyObject \<Rightarrow>
                        (Inl TypeError, s2\<lparr>h_this := (h_this s2)\<lparr>dt_length := JUndefined\<rparr>\<rparr>)))))"
  proof (cases r)
    case (Inl err)
    with sup show ?thesis by (simp add: integer_ctor_def seq_def)
  next
    case (Inr x)
    with sup have ic: "integer_ctor e cls length0 s = removeUnsupportedIntegerOptions e s1"
      by (simp add: integer_ctor_def seq_def)
    show ?thesis
    proof (cases "unsupported_options (h_this s1)")
      case False
      with sup Inr ic removeUnsupportedIntegerOptions_supported [OF False, of e]
      show ?thesis by simp
    next
      case True
      obtain r2 s2 where w: "warn e (integer_warning (dt_key (h_this s1))) s1 = (r2, s2)"
        by (cases "warn e (integer_warning (dt_key (h_this s1))) s1")
      show ?thesis
      proof (cases r2)
        case (Inl err)
        with sup Inr ic True w removeUnsupportedIntegerOptions_throws [OF True, of e err s2]
        show ?thesis by simp
      next
        case r2: (Inr y)
        with sup Inr ic True w removeUnsupportedIntegerOptions_warned [OF True, of e y s2]
        show ?thesis by simp
      qed
    qed
  qed
  have second: "\<not> truthy (dt_length (h_this (snd (integer_ctor e cls length0 s))))
          \<and> \<not> truthy (dt_options_length (h_this (snd (integer_ctor e cls length0 s))))
          \<and> \<not> truthy (dt_unsigned (h_this (snd (integer_ctor e cls length0 s))))
          \<and> \<not> truthy (dt_zerofill (h_this (snd (integer_ctor e cls length0 s))))"
    if ok: "fst (integer_ctor e cls length0 s) = Inr ()"
  proof (cases r)
    case (Inl err)
    with sup ok show ?thesis by (simp add: integer_ctor_def seq_def)
  next
    case (Inr x)
    with sup have ic: "integer_ctor e cls length0 s = removeUnsupportedIntegerOptions e s1"
      by (simp add: integer_ctor_def seq_def)
    obtain s' where "removeUnsupportedIntegerOptions e s1 = (Inr (), s')"
      using ok ic by (cases "removeUnsupportedIntegerOptions e s1") simp
    with removeUnsupportedIntegerOptions_falsy [of e s1 "()" s'] ic show ?thesis by simp
  qed
  from first second show ?thesis by blast
qed

theorem C4_witness:
  "unsupported_options (h_this (heap_around ((new_instance ''INTEGER'')\<lparr>dt_length :=
       JNum (Fin 11), dt_options_length := JNum (Fin 11)\<rparr>)))
   \<and> \<not> unsupported_options (h_this (heap_around (new_instance ''BIGINT'')))
   \<and> fst (integer_ctor example_host INTEGER (JNum (Fin 11))
        (heap_around ((new_instance ''INTEGER'')\<lparr>dt_length := JNum (Fin 11),
           dt_options_length := JNum (Fin 11)\<rparr>))) = Inr ()
   \<and> integer_ctor example_host BIGINT JUndefined (heap_around (new_instance ''BIGINT''))
       = (Inr (), heap_around (new_instance ''BIGINT''))
   \<and> integer_ctor example_host INTEGER (JNum (Fin 11))
        (heap_around ((new_instance ''INTEGER'')\<lparr>dt_length := JNum (Fin 11),
           dt_options_length := JNum (Fin 11)\<rparr>))
       = (Inr (), heap_around (new_instance ''INTEGER''))
   \<and> \<not> truthy (dt_length (h_this (snd (integer_ctor example_host INTEGER (JNum (Fin 11))
        (heap_around ((new_instance ''INTEGER'')\<lparr>dt_length := JNum (Fin 11),
           dt_options_length := JNum (Fin 11)\<rparr>))))))"
proof -
  have s1: "super_ctor example_host (family_name INTEGER) [JNum (Fin 11)]
        (heap_around ((new_instance ''INTEGER'')\<lparr>dt_length := JNum (Fin 11),
           dt_options_length := JNum (Fin 11)\<rparr>))
      = (Inr (JNum (Fin 11)), heap_around ((new_instance ''INTEGER'')\<lparr>dt_length :=
           JNum (Fin 11), dt_options_length := JNum (Fin 11)\<rparr>))"
    by (simp add: super_ctor_def example_host_def ret_def arg_def)
  have s2: "super_ctor example_host (family_name BIGINT) [JUndefined]
        (heap_around (new_instance ''BIGINT''))
      = (Inr JUndefined, heap_around (new_instance ''BIGINT''))"
    by (simp add: super_ctor_def example_host_def ret_def arg_def)
  have w: "warn example_host t s = (Inr (JStr
      ''http://www.postgresql.org/docs/9.4/static/datatype.html''), s)" for t s
    by (simp add: warn_def example_host_def ret_def arg_def)
  have u1: "unsupported_options (h_this (heap_around ((new_instance ''INTEGER'')\<lparr>dt_length :=
       JNum (Fin 11), dt_options_length := JNum (Fin 11)\<rparr>)))"
    by (simp add: unsupported_options_def heap_around_def new_instance_def)
  have u2: "\<not> unsupported_options (h_this (heap_around (new_instance ''BIGINT'')))"
    by (simp add: unsupported_options_def heap_around_def new_instance_def)
  have p: "h_options (heap_around d) = PlainObject" for d
    by (simp add: heap_around_def)
  have eq: "(heap_around ((new_instance ''INTEGER'')\<lparr>dt_length := JNum (Fin 11),
           dt_options_length := JNum (Fin 11)\<rparr>))\<lparr>h_this :=
             (h_this (heap_around ((new_instance ''INTEGER'')\<lparr>dt_length := JNum (Fin 11),
                dt_options_length := JNum (Fin 11)\<rparr>)))\<lparr>dt_length := JUndefined,
                dt_options_length := JUndefined, dt_unsigned := JUndefined,
                dt_zerofill := JUndefined\<rparr>\<rparr>
            = heap_around (new_instance ''INTEGER'')"
    by (simp add: heap_around_def new_instance_def)
  note i1 = C4_integer_options [where e = example_host and cls = INTEGER
      and ?length0.0 = "JNum (Fin 11)"
      and s = "heap_around ((new_instance ''INTEGER'')\<lparr>dt_length := JNum (Fin 11),
           dt_options_length := JNum (Fin 11)\<rparr>)"]
  note i2 = C4_integer_options [where e = example_host and cls = BIGINT
      and ?length0.0 = JUndefined and s = "heap_around (new_instance ''BIGINT'')", THEN conjunct1]
  from i2 s2 u2
  have c2: "integer_ctor example_host BIGINT JUndefined (heap_around (new_instance ''BIGINT''))
       = (Inr (), heap_around (new_instance ''BIGINT''))"
    by simp
  from i1 [THEN conjunct1] s1 u1 w p eq
  have c1: "integer_ctor example_host INTEGER (JNum (Fin 11))
        (heap_around ((new_instance ''INTEGER'')\<lparr>dt_length := JNum (Fin 11),
           dt_options_length := JNum (Fin 11)\<rparr>))
       = (Inr (), heap_around (new_instance ''INTEGER''))"
    by simp
  then have c0: "fst (integer_ctor example_host INTEGER (JNum (Fin 11))
        (heap_around ((new_instance ''INTEGER'')\<lparr>dt_length := JNum (Fin 11),
           dt_options_length := JNum (Fin 11)\<rparr>))) = Inr ()"
    by simp
  from i1 [THEN conjunct2] c0
  have c3: "\<not> truthy (dt_length (h_this (snd (integer_ctor example_host INTEGER (JNum (Fin 11))
        (heap_around ((new_instance ''INTEGER'')\<lparr>dt_length := JNum (Fin 11),
           dt_options_length := JNum (Fin 11)\<rparr>))))))"
    by blast
  from u1 u2 c0 c2 c1 c3 show ?thesis by blast
qed

text \<open>
  Claim C5, as stated, fails: \<^verbatim>\<open>_unsigned\<close> and \<^verbatim>\<open>_zerofill\<close> are reset only when
  truthy. A \<^verbatim>\<open>FLOAT\<close> built with \<^verbatim>\<open>unsigned: false\<close> keeps \<^verbatim>\<open>_unsigned === false\<close>.
\<close>

theorem C5_counterexample:
  "dt_unsigned (snd (kb_FLOAT_ctor ((new_instance ''FLOAT'')\<lparr>dt_unsigned := JBool False\<rparr>)))
     \<noteq> JUndefined"
  by (simp add: kb_FLOAT_ctor_def new_instance_def)

text \<open>
  Claim C5, amended: after the KingbaseES \<^verbatim>\<open>FLOAT\<close> constructor \<^verbatim>\<open>_unsigned\<close> and
  \<^verbatim>\<open>_zerofill\<close> are falsy in all cases, and \<^verbatim>\<open>undefined\<close> whenever they were truthy;
  if the base constructor left a truthy \<^verbatim>\<open>_decimals\<close>, then \<^verbatim>\<open>_decimals\<close>,
  \<^verbatim>\<open>_length\<close> and \<^verbatim>\<open>options.length\<close> are \<^verbatim>\<open>undefined\<close>; with no decimals the length
  is kept.
\<close>

theorem C5_float_options:
  "(case kb_FLOAT_ctor this of
      (w, d) \<Rightarrow>
        \<not> truthy (dt_unsigned d) \<and> \<not> truthy (dt_zerofill d)
        \<and> (truthy (dt_unsigned this) \<longrightarrow> dt_unsigned d = JUndefined)
        \<and> (truthy (dt_zerofill this) \<longrightarrow> dt_zerofill d = JUndefined)
        \<and> (truthy (dt_decimals this)
            \<longrightarrow> dt_decimals d = JUndefined \<and> dt_length d = JUndefined
                \<and> dt_options_length d = JUndefined)
        \<and> (\<not> truthy (dt_decimals this)
            \<longrightarrow> dt_length d = dt_length this \<and> dt_options_length d = dt_options_length this))"
  by (simp add: kb_FLOAT_ctor_def Let_def)

theorem C5_witness:
  "truthy (JNum (Fin 2)) \<and> truthy (JBool True)
   \<and> dt_length (snd (kb_FLOAT_ctor
        ((new_instance ''FLOAT'')\<lparr>dt_length := JNum (Fin 10), dt_unsigned := JBool True,
           dt_zerofill := JBool True, dt_decimals := JNum (Fin 2)\<rparr>))) = JUndefined
   \<and> dt_unsigned (snd (kb_FLOAT_ctor
        ((new_instance ''FLOAT'')\<lparr>dt_length := JNum (Fin 10), dt_unsigned := JBool True,
           dt_zerofill := JBool True, dt_decimals := JNum (Fin 2)\<rparr>))) = JUndefined
   \<and> dt_zerofill (snd (kb_FLOAT_ctor
        ((new_instance ''FLOAT'')\<lparr>dt_length := JNum (Fin 10), dt_unsigned := JBool True,
           dt_zerofill := JBool True, dt_decimals := JNum (Fin 2)\<rparr>))) = JUndefined
   \<and> \<not> truthy JUndefined
   \<and> dt_length (snd (kb_FLOAT_ctor ((new_instance ''FLOAT'')\<lparr>dt_length := JNum (Fin 10)\<rparr>)))
       = JNum (Fin 10)"
  using C5_float_options
    [of "(new_instance ''FLOAT'')\<lparr>dt_length := JNum (Fin 10), dt_unsigned := JBool True,
           dt_zerofill := JBool True, dt_decimals := JNum (Fin 2)\<rparr>"]
    C5_float_options [of "(new_instance ''FLOAT'')\<lparr>dt_length := JNum (Fin 10)\<rparr>"]
  by (simp add: new_instance_def split: prod.splits)

section \<open>Dameng: GEOMETRY construction\<close>

text \<open>
  Claim C6: the Dameng \<^verbatim>\<open>GEOMETRY\<close> constructor throws exactly when the type the base
  constructor resolved is non-empty and is not one of \<^verbatim>\<open>'POINT'\<close>, \<^verbatim>\<open>'LINESTRING'\<close>,
  \<^verbatim>\<open>'POLYGON'\<close>, and what it throws is the \<^verbatim>\<open>Error\<close> listing the supported types;
  when it returns, \<^verbatim>\<open>sqlType\<close> is the type if the type is one of the three and the
  instance's \<^verbatim>\<open>key\<close> if the type is empty, and \<^verbatim>\<open>toSql\<close> returns \<^verbatim>\<open>sqlType\<close>.
\<close>

theorem C6_geometry_ctor:
  "(isl (dm_GEOMETRY_ctor this)
      \<longleftrightarrow> \<not> isEmpty (dt_type this) \<and> dt_type this \<notin> JStr ` set SUPPORTED_GEOMETRY_TYPES)
   \<and> (isl (dm_GEOMETRY_ctor this) \<longrightarrow> dm_GEOMETRY_ctor this = Inl geometry_error)
   \<and> (\<forall>d. dm_GEOMETRY_ctor this = Inr d \<longrightarrow>
          (dt_type this \<in> JStr ` set SUPPORTED_GEOMETRY_TYPES \<longrightarrow> dt_sqlType d = dt_type this)
        \<and> (isEmpty (dt_type this) \<longrightarrow> dt_sqlType d = JStr (dt_key this))
        \<and> dm_GEOMETRY_toSql d = dt_sqlType d)"
proof -
  have inc: "array_includes xs v \<longleftrightarrow> v \<in> JStr ` set xs" for xs v
    by (cases v) auto
  have ne: "\<not> isEmpty v" if "v \<in> JStr ` set SUPPORTED_GEOMETRY_TYPES" for v
    using that by (auto simp: SUPPORTED_GEOMETRY_TYPES_def)
  show ?thesis
    using ne [of "dt_type this"]
    by (auto simp: dm_GEOMETRY_ctor_def dm_GEOMETRY_toSql_def inc)
qed

theorem C6_witness:
  "dm_GEOMETRY_ctor ((new_instance ''GEOMETRY'')\<lparr>dt_type := JStr ''POINT''\<rparr>)
     = Inr ((new_instance ''GEOMETRY'')\<lparr>dt_type := JStr ''POINT'', dt_sqlType := JStr ''POINT''\<rparr>)
   \<and> JStr ''POINT'' \<in> JStr ` set SUPPORTED_GEOMETRY_TYPES
   \<and> dt_sqlType ((new_instance ''GEOMETRY'')\<lparr>dt_type := JStr ''POINT'', dt_sqlType := JStr ''POINT''\<rparr>)
       = JStr ''POINT''
   \<and> isl (dm_GEOMETRY_ctor ((new_instance ''GEOMETRY'')\<lparr>dt_type := JStr ''CIRCLE''\<rparr>))
   \<and> dm_GEOMETRY_ctor ((new_instance ''GEOMETRY'')\<lparr>dt_type := JStr ''CIRCLE''\<rparr>)
       = Inl (Error ''Supported geometry types are: POINT, LINESTRING, POLYGON'')
   \<and> isEmpty JUndefined
   \<and> dt_sqlType (projr (dm_GEOMETRY_ctor (new_instance ''GEOMETRY''))) = JStr ''GEOMETRY''"
  using C6_geometry_ctor [of "(new_instance ''GEOMETRY'')\<lparr>dt_type := JStr ''POINT''\<rparr>"]
    C6_geometry_ctor [of "(new_instance ''GEOMETRY'')\<lparr>dt_type := JStr ''CIRCLE''\<rparr>"]
    C6_geometry_ctor [of "new_instance ''GEOMETRY''"]
  by (simp add: new_instance_def dm_GEOMETRY_ctor_def SUPPORTED_GEOMETRY_TYPES_def geometry_error_def)

section \<open>KingbaseES: the infinite dates\<close>

lemma not_raw_absent:
  "options = JUndefined \<or> get_prop options ''raw'' = JBool False \<Longrightarrow> not_raw options"
  by (cases options) (auto simp: not_raw_def)

text \<open>
  Claim C7, as stated, fails for \<^verbatim>\<open>DATE\<close>: the KingbaseES class \<^verbatim>\<open>DATE\<close> declares no
  static \<^verbatim>\<open>parse\<close> (only \<^verbatim>\<open>DATEONLY\<close> does), so \<^verbatim>\<open>DATE.parse('infinity')\<close> is
  whatever the host's base class makes of it and does not return \<^verbatim>\<open>Infinity\<close> when
  the host declares none.
\<close>

theorem C7_counterexample:
  "kb_DATE_parse None (JStr ''infinity'') \<noteq> Inr Infinity"
  by (simp add: kb_DATE_parse_def)

text \<open>
  Claim C7, amended: for the KingbaseES \<^verbatim>\<open>DATE\<close> and \<^verbatim>\<open>DATEONLY\<close> types,
  \<^verbatim>\<open>_stringify\<close> of \<^verbatim>\<open>Infinity\<close> and \<^verbatim>\<open>-Infinity\<close> returns \<^verbatim>\<open>'Infinity'\<close> and
  \<^verbatim>\<open>'-Infinity'\<close>, and \<^verbatim>\<open>_sanitize\<close> of any letter-case variant of
  \<^verbatim>\<open>'infinity'\<close> / \<^verbatim>\<open>'-infinity'\<close>, when \<^verbatim>\<open>options\<close> is absent or \<^verbatim>\<open>options.raw\<close>
  is false, returns \<^verbatim>\<open>Infinity\<close> / \<^verbatim>\<open>-Infinity\<close>; for \<^verbatim>\<open>DATEONLY\<close>, whose class
  declares the static \<^verbatim>\<open>parse\<close>, parsing the wire strings \<^verbatim>\<open>'infinity'\<close> /
  \<^verbatim>\<open>'-infinity'\<close> returns the two values, so \<^verbatim>\<open>parse\<close> after lowercasing
  \<^verbatim>\<open>_stringify\<close> is the identity on them.
\<close>

theorem C7_infinity:
  "kb_DATEONLY_stringify e this Infinity options = JStr ''Infinity''
   \<and> kb_DATEONLY_stringify e this NegInfinity options = JStr ''-Infinity''
   \<and> kb_DATE_stringify e this Infinity options = JStr ''Infinity''
   \<and> kb_DATE_stringify e this NegInfinity options = JStr ''-Infinity''
   \<and> kb_DATEONLY_parse (JStr ''infinity'') = Infinity
   \<and> kb_DATEONLY_parse (JStr ''-infinity'') = NegInfinity
   \<and> (options = JUndefined \<or> get_prop options ''raw'' = JBool False \<longrightarrow>
        (toLowerCase s = ''infinity'' \<longrightarrow>
           kb_DATEONLY_sanitize e this (JStr s) options = Infinity
           \<and> kb_DATE_sanitize e (JStr s) options = Infinity)
      \<and> (toLowerCase s = ''-infinity'' \<longrightarrow>
           kb_DATEONLY_sanitize e this (JStr s) options = NegInfinity
           \<and> kb_DATE_sanitize e (JStr s) options = NegInfinity))
   \<and> (\<forall>v \<in> {Infinity, NegInfinity}. \<forall>t.
        kb_DATEONLY_stringify e this v options = JStr t
        \<longrightarrow> kb_DATEONLY_parse (JStr (toLowerCase t)) = v)"
proof -
  have s1: "kb_DATEONLY_stringify e this Infinity options = JStr ''Infinity''"
    and s2: "kb_DATEONLY_stringify e this NegInfinity options = JStr ''-Infinity''"
    by (simp_all add: kb_DATEONLY_stringify_def)
  have s3: "kb_DATE_stringify e this Infinity options = JStr ''Infinity''"
    and s4: "kb_DATE_stringify e this NegInfinity options = JStr ''-Infinity''"
    by (simp_all add: kb_DATE_stringify_def)
  have p1: "kb_DATEONLY_parse (JStr ''infinity'') = Infinity"
    and p2: "kb_DATEONLY_parse (JStr ''-infinity'') = NegInfinity"
    by (simp_all add: kb_DATEONLY_parse_def)
  have l1: "toLowerCase ''Infinity'' = ''infinity''"
    and l2: "toLowerCase ''-Infinity'' = ''-infinity''"
    by (simp_all add: toLowerCase_def lower_char_def)
  have san: "kb_DATEONLY_sanitize e this (JStr s) options = Infinity
             \<and> kb_DATE_sanitize e (JStr s) options = Infinity"
    if "not_raw options" "toLowerCase s = ''infinity''"
    using that by (auto simp: kb_DATEONLY_sanitize_def kb_DATE_sanitize_def toLowerCase_def)
  have san': "kb_DATEONLY_sanitize e this (JStr s) options = NegInfinity
             \<and> kb_DATE_sanitize e (JStr s) options = NegInfinity"
    if "not_raw options" "toLowerCase s = ''-infinity''"
    using that by (auto simp: kb_DATEONLY_sanitize_def kb_DATE_sanitize_def toLowerCase_def)
  have rt: "\<forall>v \<in> {Infinity, NegInfinity}. \<forall>t.
        kb_DATEONLY_stringify e this v options = JStr t
        \<longrightarrow> kb_DATEONLY_parse (JStr (toLowerCase t)) = v"
    using s1 s2 l1 l2 p1 p2 by auto
  show ?thesis
    using s1 s2 s3 s4 p1 p2 san san' rt not_raw_absent [of options] by blast
qed

theorem C7_witness:
  "get_prop (JObj [(''raw'', JBool False)]) ''raw'' = JBool False
   \<and> toLowerCase ''-InFiNiTy'' = ''-infinity''
   \<and> kb_DATE_sanitize example_env (JStr ''-InFiNiTy'') (JObj [(''raw'', JBool False)]) = NegInfinity
   \<and> Infinity \<in> {Infinity, NegInfinity}
   \<and> kb_DATEONLY_stringify example_env (new_instance ''DATEONLY'') Infinity JUndefined = JStr ''Infinity''
   \<and> kb_DATEONLY_parse (JStr (toLowerCase ''Infinity'')) = Infinity"
  using C7_infinity [of example_env "new_instance ''DATEONLY''" "JObj [(''raw'', JBool False)]" "''-InFiNiTy''"]
    C7_infinity [of example_env "new_instance ''DATEONLY''" JUndefined "''INFINITY''"]
  by (simp add: toLowerCase_def lower_char_def)

section \<open>Dameng: fractional seconds of DATE and TIME\<close>

text \<open>
  Claim C8 at length \<open>3\<close>: \<^verbatim>\<open>DATE._stringify\<close> joins the \<^verbatim>\<open>'S'\<close> tokens with
  \<^verbatim>\<open>join()\<close>, so the format string it passes on has commas between them, where
  \<^verbatim>\<open>TIME._stringify\<close>, with \<^verbatim>\<open>join('')\<close>, has none; at length \<open>1\<close> the two agree.
\<close>

theorem C8_date_fraction_pattern:
  "dm_DATE_format ((new_instance ''DATE'')\<lparr>dt_length := JNum (Fin 3)\<rparr>)
     = Inr ''YYYY-MM-DD HH:mm:ss.S,S,S''
   \<and> dm_TIME_format ((new_instance ''TIME'')\<lparr>dt_length := JNum (Fin 3)\<rparr>)
     = Inr ''HH:mm:ss.SSS''
   \<and> dm_DATE_format ((new_instance ''DATE'')\<lparr>dt_length := JNum (Fin 1)\<rparr>)
     = Inr ''YYYY-MM-DD HH:mm:ss.S''"
  by (simp add: dm_DATE_format_def dm_TIME_format_def new_instance_def numeral_3_eq_3)

end
